theory Spec2Isabelle
  imports Complex_Main
begin

section \<open>Numbers\<close>

text \<open>
  The program is TypeScript; every quantity is a JavaScript \<^verbatim>\<open>number\<close>. The
  model takes numbers as exact reals. The one place where the modelled code produces a
  non-finite value from finite arguments (a division by zero elapsed weeks in the progress
  analysis) is written out explicitly further down.

  \<^verbatim>\<open>Math.round(x)\<close> rounds to the nearest integer, a tie going up:
  it is the floor of \<open>x + 1/2\<close>.
\<close>

definition js_round :: "real \<Rightarrow> real" where
  "js_round x = of_int \<lfloor>x + 1 / 2\<rfloor>"

text \<open>\<^verbatim>\<open>Math.sign\<close> on a finite number.\<close>

definition js_sign :: "real \<Rightarrow> real" where
  "js_sign x = (if x > 0 then 1 else if x < 0 then - 1 else 0)"

text \<open>
  \<^verbatim>\<open>parseFloat(x.toFixed(2))\<close>: the nearest multiple of 1/100, a tie going away
  from zero (\<^verbatim>\<open>toFixed\<close> works on the absolute value and puts the sign back).
\<close>

definition toFixed2 :: "real \<Rightarrow> real" where
  "toFixed2 x = (if x < 0 then - (of_int \<lfloor>(- x) * 100 + 1 / 2\<rfloor> / 100)
                 else of_int \<lfloor>x * 100 + 1 / 2\<rfloor> / 100)"

datatype goal = WeightLoss | Maintenance | MuscleGain

datatype gender = Male | Female

datatype activityLevel = Sedentary | Light | Moderate | Active | VeryActive

section \<open>Energy balance calculator\<close>

record EnergyBalanceInput =
  tdee :: real
  goal :: goal
  weight :: real

record EnergyBalanceResult =
  targetCalories :: real
  deficit :: real
  deficitPercentage :: real
  weeklyWeightChangeKg :: real

text \<open>
  \<^verbatim>\<open>ENERGY_ADJUSTMENTS\<close>: the pair is (min, max). The table has an entry for each of
  the three goals, so the fallback \<^verbatim>\<open>|| ENERGY_ADJUSTMENTS.maintenance\<close> of the
  lookup is never taken; the same holds for the ratio tables of the macro calculator.
\<close>

fun ENERGY_ADJUSTMENTS :: "goal \<Rightarrow> real \<times> real" where
  "ENERGY_ADJUSTMENTS WeightLoss = (- 0.25, - 0.20)"
| "ENERGY_ADJUSTMENTS Maintenance = (0, 0)"
| "ENERGY_ADJUSTMENTS MuscleGain = (0.08, 0.12)"

text \<open>\<^verbatim>\<open>MAX_ADJUSTMENTS\<close> of the energy balance calculator.\<close>

definition MAX_ADJUSTMENTS_deficit :: real where
  "MAX_ADJUSTMENTS_deficit = 500"

definition MAX_ADJUSTMENTS_surplus :: real where
  "MAX_ADJUSTMENTS_surplus = 300"

definition calculateTargetCalories :: "EnergyBalanceInput \<Rightarrow> EnergyBalanceResult" where
  "calculateTargetCalories input =
     (let adjustment = ENERGY_ADJUSTMENTS (goal input);
          deficitPercentage =
            (if goal input = WeightLoss then snd adjustment
             else if goal input = MuscleGain then fst adjustment
             else 0);
          deficit0 = js_round (tdee input * deficitPercentage);
          deficit =
            (if goal input = WeightLoss then max deficit0 (- MAX_ADJUSTMENTS_deficit)
             else if goal input = MuscleGain then min deficit0 MAX_ADJUSTMENTS_surplus
             else deficit0);
          targetCalories = tdee input + deficit;
          weeklyDeficit = deficit * 7
      in \<lparr> targetCalories = js_round targetCalories,
           deficit = deficit,
           deficitPercentage = deficitPercentage,
           weeklyWeightChangeKg = toFixed2 (weeklyDeficit / 7700) \<rparr>)"



section \<open>TDEE calculator\<close>

text \<open>Field names that occur in several interfaces of the source carry a short prefix here.\<close>

record TDEEInput =
  ti_weight :: real
  ti_height :: real
  ti_age :: real
  ti_gender :: gender
  ti_activityLevel :: activityLevel

record TDEEResult =
  bmr :: real
  tr_tdee :: real
  activityMultiplier :: real

fun ACTIVITY_MULTIPLIERS :: "activityLevel \<Rightarrow> real" where
  "ACTIVITY_MULTIPLIERS Sedentary = 1.2"
| "ACTIVITY_MULTIPLIERS Light = 1.375"
| "ACTIVITY_MULTIPLIERS Moderate = 1.55"
| "ACTIVITY_MULTIPLIERS Active = 1.725"
| "ACTIVITY_MULTIPLIERS VeryActive = 1.9"

definition calculateBMR :: "TDEEInput \<Rightarrow> real" where
  "calculateBMR input =
     js_round (10 * ti_weight input + 6.25 * ti_height input - 5 * ti_age input
               + (if ti_gender input = Male then 5 else - 161))"

text \<open>
  The source reads \<^verbatim>\<open>ACTIVITY_MULTIPLIERS[input.activityLevel] || 1.2\<close>; every one of
  the five levels has a non-zero entry, so the fallback is never taken.
\<close>

definition calculateTDEE :: "TDEEInput \<Rightarrow> TDEEResult" where
  "calculateTDEE input =
     (let b = calculateBMR input;
          m = ACTIVITY_MULTIPLIERS (ti_activityLevel input)
      in \<lparr> bmr = b, tr_tdee = js_round (b * m), activityMultiplier = m \<rparr>)"

section \<open>Plan builder service\<close>

text \<open>The parameter object of \<^verbatim>\<open>PlanBuilderService.calculateTDEE\<close>; sex and activity
  level are plain strings there.\<close>

record PlanBuilderTDEEParams =
  pb_weight :: real
  pb_height :: real
  pb_age :: real
  pb_sex :: string
  pb_activityLevel :: string

definition PlanBuilderService_calculateTDEE :: "PlanBuilderTDEEParams \<Rightarrow> real" where
  "PlanBuilderService_calculateTDEE params =
     (let b = (if pb_sex params = ''male''
               then 10 * pb_weight params + 6.25 * pb_height params - 5 * pb_age params + 5
               else 10 * pb_weight params + 6.25 * pb_height params - 5 * pb_age params - 161);
          m = 1.55
      in js_round (b * m))"

section \<open>Macro calculator\<close>

record MacroInput =
  mi_weight :: real
  mi_targetCalories :: real
  mi_goal :: goal
  mi_activityLevel :: activityLevel

record MacroResult =
  protein :: real
  fat :: real
  carbs :: real
  proteinCalories :: real
  fatCalories :: real
  carbsCalories :: real

text \<open>\<^verbatim>\<open>PROTEIN_RATIOS\<close> and \<^verbatim>\<open>FAT_RATIOS\<close>: the pair is (min, max).\<close>

fun PROTEIN_RATIOS :: "goal \<Rightarrow> real \<times> real" where
  "PROTEIN_RATIOS WeightLoss = (2.0, 2.4)"
| "PROTEIN_RATIOS Maintenance = (1.8, 2.2)"
| "PROTEIN_RATIOS MuscleGain = (1.6, 2.2)"

fun FAT_RATIOS :: "goal \<Rightarrow> real \<times> real" where
  "FAT_RATIOS WeightLoss = (0.8, 1.0)"
| "FAT_RATIOS Maintenance = (0.8, 1.2)"
| "FAT_RATIOS MuscleGain = (0.8, 1.0)"

definition calculateProtein :: "real \<Rightarrow> goal \<Rightarrow> real" where
  "calculateProtein w g =
     (let ratio = PROTEIN_RATIOS g;
          targetRatio = (if g = WeightLoss then snd ratio else (fst ratio + snd ratio) / 2)
      in js_round (w * targetRatio))"

definition calculateFat :: "real \<Rightarrow> goal \<Rightarrow> real" where
  "calculateFat w g =
     (let ratio = FAT_RATIOS g;
          targetRatio = (fst ratio + snd ratio) / 2
      in js_round (w * targetRatio))"

definition calculateCarbs :: "real \<Rightarrow> real \<Rightarrow> real \<Rightarrow> real" where
  "calculateCarbs target proteinGrams fatGrams =
     (let proteinCal = proteinGrams * 4;
          fatCal = fatGrams * 9;
          remainingCalories = target - proteinCal - fatCal
      in max 0 (js_round (remainingCalories / 4)))"

definition calculateMacros :: "MacroInput \<Rightarrow> MacroResult" where
  "calculateMacros input =
     (let p = calculateProtein (mi_weight input) (mi_goal input);
          f = calculateFat (mi_weight input) (mi_goal input);
          c = calculateCarbs (mi_targetCalories input) p f
      in \<lparr> protein = p, fat = f, carbs = c,
           proteinCalories = p * 4, fatCalories = f * 9, carbsCalories = c * 4 \<rparr>)"

definition validateMacros :: "MacroResult \<Rightarrow> real \<Rightarrow> bool" where
  "validateMacros result target =
     (let totalCalories = proteinCalories result + fatCalories result + carbsCalories result;
          difference = \<bar>totalCalories - target\<bar>;
          tolerance = target * 0.05
      in difference \<le> tolerance)"

section \<open>Safety validator\<close>

text \<open>
  The validator collects message strings built from templates. A message is modelled by a
  constructor naming its template, applied to the numbers the template prints.
\<close>

datatype message =
    CaloriesBelowMinimum real real
  | DeficitExceedsMaximum real real
  | SurplusExceedsMaximum real real
  | ProteinBelowMinimum real real
  | ProteinUnusuallyHigh real real
  | WeeklyLossExceedsSafeRate real real
  | AdjustmentExceedsMaximum real
  | NewCaloriesBelowMinimum real real
  | LargeAdjustment real

record ValidationResult =
  isValid :: bool
  violations :: "message list"
  warnings :: "message list"

fun MIN_CALORIES :: "gender \<Rightarrow> real" where
  "MIN_CALORIES Male = 1500"
| "MIN_CALORIES Female = 1200"

text \<open>\<^verbatim>\<open>MAX_ADJUSTMENTS\<close> of the safety validator.\<close>

definition SAFETY_MAX_deficit :: real where
  "SAFETY_MAX_deficit = 500"

definition SAFETY_MAX_surplus :: real where
  "SAFETY_MAX_surplus = 300"

definition SAFETY_MAX_weeklyWeightLoss :: real where
  "SAFETY_MAX_weeklyWeightLoss = 0.01"

text \<open>Every check appends to the list it reports to; none of them returns early.\<close>

definition validateNutritionPlan ::
  "real \<Rightarrow> real \<Rightarrow> real \<Rightarrow> gender \<Rightarrow> real \<Rightarrow> goal \<Rightarrow> ValidationResult" where
  "validateNutritionPlan calories prot w gen td g =
     (let minCalories = MIN_CALORIES gen;
          v1 = (if calories < minCalories then [CaloriesBelowMinimum calories minCalories] else []);
          v2 = (if g = WeightLoss \<and> td - calories > SAFETY_MAX_deficit
                then [DeficitExceedsMaximum (td - calories) SAFETY_MAX_deficit] else []);
          v3 = (if g = MuscleGain \<and> calories - td > SAFETY_MAX_surplus
                then [SurplusExceedsMaximum (calories - td) SAFETY_MAX_surplus] else []);
          minProtein = w * 1.6;
          v4 = (if prot < minProtein then [ProteinBelowMinimum prot minProtein] else []);
          maxProtein = w * 3.0;
          w5 = (if prot > maxProtein then [ProteinUnusuallyHigh prot maxProtein] else []);
          weeklyDeficit = (td - calories) * 7;
          weeklyWeightLoss = weeklyDeficit / 7700;
          maxWeeklyLoss = w * SAFETY_MAX_weeklyWeightLoss;
          v6 = (if g = WeightLoss \<and> weeklyWeightLoss > maxWeeklyLoss
                then [WeeklyLossExceedsSafeRate weeklyWeightLoss maxWeeklyLoss] else []);
          vs = v1 @ v2 @ v3 @ v4 @ v6
      in \<lparr> isValid = (length vs = 0), violations = vs, warnings = w5 \<rparr>)"

definition validateAdjustment :: "real \<Rightarrow> real \<Rightarrow> gender \<Rightarrow> ValidationResult" where
  "validateAdjustment currentCal newCal gen =
     (let adj = newCal - currentCal;
          v1 = (if \<bar>adj\<bar> > 200 then [AdjustmentExceedsMaximum adj] else []);
          minCalories = MIN_CALORIES gen;
          v2 = (if newCal < minCalories then [NewCaloriesBelowMinimum newCal minCalories] else []);
          w3 = (if \<bar>adj\<bar> \<ge> 150 \<and> \<bar>adj\<bar> \<le> 200 then [LargeAdjustment adj] else []);
          vs = v1 @ v2
      in \<lparr> isValid = (length vs = 0), violations = vs, warnings = w3 \<rparr>)"

section \<open>Adjustment validator\<close>

record ProgressData =
  currentWeight :: real
  previousWeight :: real
  weeksSinceLastCheckin :: real
  pd_goal :: goal

datatype pattern = TooFast | TooSlow | Stalled | OnTrack | Reversed

text \<open>The recommendation; its explanatory text (\<^verbatim>\<open>reason\<close>) is not modelled.\<close>

record AdjustmentRecommendation =
  shouldAdjust :: bool
  recommendedCalorieChange :: real
  pattern :: pattern

text \<open>
  The weekly change is a quotient whose divisor, the elapsed weeks, can be zero. JavaScript
  then yields \<^verbatim>\<open>Infinity\<close>, \<^verbatim>\<open>-Infinity\<close> or \<^verbatim>\<open>NaN\<close>
  (for 0/0) instead of failing, and the analysis goes on with that value.
\<close>

datatype quotient = Finite real | PosInfinity | NegInfinity | NaN

definition js_div :: "real \<Rightarrow> real \<Rightarrow> quotient" where
  "js_div a b =
     (if b \<noteq> 0 then Finite (a / b)
      else if a > 0 then PosInfinity
      else if a < 0 then NegInfinity
      else NaN)"

text \<open>
  For a finite actual change the three tests run in the order of the source. For an
  infinite one the outcome is what the same tests give: \<^verbatim>\<open>Infinity\<close> fails the
  first test and passes the second, where \<^verbatim>\<open>Math.min(200, Infinity)\<close> is 200;
  \<^verbatim>\<open>-Infinity\<close> passes the first. Every comparison with \<^verbatim>\<open>NaN\<close> is false,
  which leaves the final return.
\<close>

fun analyzeWeightLossProgress :: "quotient \<Rightarrow> real \<Rightarrow> AdjustmentRecommendation" where
  "analyzeWeightLossProgress (Finite actualChange) expectedChange =
     (if actualChange < expectedChange - 0.3 then
        (let calorieIncrease = min 200 \<bar>(actualChange - expectedChange) * 1100\<bar>
         in \<lparr> shouldAdjust = True, recommendedCalorieChange = js_round calorieIncrease,
              pattern = TooFast \<rparr>)
      else if actualChange > expectedChange + 0.3 then
        (let calorieDecrease = min 200 \<bar>(actualChange - expectedChange) * 1100\<bar>
         in \<lparr> shouldAdjust = True, recommendedCalorieChange = - js_round calorieDecrease,
              pattern = TooSlow \<rparr>)
      else if actualChange \<ge> 0 then
        \<lparr> shouldAdjust = True, recommendedCalorieChange = - 150, pattern = Reversed \<rparr>
      else
        \<lparr> shouldAdjust = False, recommendedCalorieChange = 0, pattern = OnTrack \<rparr>)"
| "analyzeWeightLossProgress PosInfinity expectedChange =
     \<lparr> shouldAdjust = True, recommendedCalorieChange = - js_round 200, pattern = TooSlow \<rparr>"
| "analyzeWeightLossProgress NegInfinity expectedChange =
     \<lparr> shouldAdjust = True, recommendedCalorieChange = js_round 200, pattern = TooFast \<rparr>"
| "analyzeWeightLossProgress NaN expectedChange =
     \<lparr> shouldAdjust = False, recommendedCalorieChange = 0, pattern = OnTrack \<rparr>"

fun analyzeMuscleGainProgress :: "quotient \<Rightarrow> real \<Rightarrow> AdjustmentRecommendation" where
  "analyzeMuscleGainProgress (Finite actualChange) expectedChange =
     (if actualChange > expectedChange + 0.3 then
        \<lparr> shouldAdjust = True, recommendedCalorieChange = - 100, pattern = TooFast \<rparr>
      else if actualChange < expectedChange - 0.2 then
        \<lparr> shouldAdjust = True, recommendedCalorieChange = 150, pattern = TooSlow \<rparr>
      else if actualChange \<le> - 0.2 then
        \<lparr> shouldAdjust = True, recommendedCalorieChange = 200, pattern = Reversed \<rparr>
      else
        \<lparr> shouldAdjust = False, recommendedCalorieChange = 0, pattern = OnTrack \<rparr>)"
| "analyzeMuscleGainProgress PosInfinity expectedChange =
     \<lparr> shouldAdjust = True, recommendedCalorieChange = - 100, pattern = TooFast \<rparr>"
| "analyzeMuscleGainProgress NegInfinity expectedChange =
     \<lparr> shouldAdjust = True, recommendedCalorieChange = 150, pattern = TooSlow \<rparr>"
| "analyzeMuscleGainProgress NaN expectedChange =
     \<lparr> shouldAdjust = False, recommendedCalorieChange = 0, pattern = OnTrack \<rparr>"

text \<open>
  In the maintenance analysis \<^verbatim>\<open>NaN\<close> fails both tests and so reaches the last
  branch, as \<^verbatim>\<open>Infinity\<close> does.
\<close>

fun analyzeMaintenanceProgress :: "quotient \<Rightarrow> AdjustmentRecommendation" where
  "analyzeMaintenanceProgress (Finite actualChange) =
     (let tolerance = 0.3
      in if \<bar>actualChange\<bar> \<le> tolerance then
           \<lparr> shouldAdjust = False, recommendedCalorieChange = 0, pattern = OnTrack \<rparr>
         else if actualChange < - tolerance then
           \<lparr> shouldAdjust = True, recommendedCalorieChange = 100, pattern = TooFast \<rparr>
         else
           \<lparr> shouldAdjust = True, recommendedCalorieChange = - 100, pattern = TooSlow \<rparr>)"
| "analyzeMaintenanceProgress PosInfinity =
     \<lparr> shouldAdjust = True, recommendedCalorieChange = - 100, pattern = TooSlow \<rparr>"
| "analyzeMaintenanceProgress NegInfinity =
     \<lparr> shouldAdjust = True, recommendedCalorieChange = 100, pattern = TooFast \<rparr>"
| "analyzeMaintenanceProgress NaN =
     \<lparr> shouldAdjust = True, recommendedCalorieChange = - 100, pattern = TooSlow \<rparr>"

text \<open>\<^verbatim>\<open>Math.abs(weeklyChange - expectedWeeklyChange) <= tolerance\<close>: false for a
  non-finite weekly change.\<close>

fun withinTolerance :: "quotient \<Rightarrow> real \<Rightarrow> real \<Rightarrow> bool" where
  "withinTolerance (Finite weeklyChange) expected tolerance =
     (\<bar>weeklyChange - expected\<bar> \<le> tolerance)"
| "withinTolerance _ expected tolerance = False"

definition analyzeProgress :: "ProgressData \<Rightarrow> real \<Rightarrow> AdjustmentRecommendation" where
  "analyzeProgress progressData expectedWeeklyChange =
     (let totalWeightChange = currentWeight progressData - previousWeight progressData;
          weeklyChange = js_div totalWeightChange (weeksSinceLastCheckin progressData);
          tolerance = 0.2
      in if withinTolerance weeklyChange expectedWeeklyChange tolerance then
           \<lparr> shouldAdjust = False, recommendedCalorieChange = 0, pattern = OnTrack \<rparr>
         else if pd_goal progressData = WeightLoss then
           analyzeWeightLossProgress weeklyChange expectedWeeklyChange
         else if pd_goal progressData = MuscleGain then
           analyzeMuscleGainProgress weeklyChange expectedWeeklyChange
         else
           analyzeMaintenanceProgress weeklyChange)"

text \<open>
  \<^verbatim>\<open>Math.max\<close> and \<^verbatim>\<open>Math.min\<close> of no arguments are
  \<^verbatim>\<open>-Infinity\<close> and \<^verbatim>\<open>Infinity\<close>, so an empty list that passes the
  length test has range \<^verbatim>\<open>-Infinity\<close>, which is below 0.3.
\<close>

definition detectStall :: "real list \<Rightarrow> real \<Rightarrow> bool" where
  "detectStall recentWeights threshold =
     (if real (length recentWeights) < threshold then False
      else if recentWeights = [] then True
      else
        let maxWeight = Max (set recentWeights);
            minWeight = Min (set recentWeights);
            range = maxWeight - minWeight
        in range < 0.3)"

text \<open>The default value of the second parameter.\<close>

definition detectStall_default_threshold :: real where
  "detectStall_default_threshold = 3"

section \<open>Adjustment engine\<close>

text \<open>A check-in; \<open>createdAt\<close> is the time stamp in milliseconds.\<close>

record CheckInData =
  ci_weight :: real
  createdAt :: int
  energyLevel :: "real option"
  hungerLevel :: "real option"
  stressLevel :: "real option"

datatype trainingAdjustment = Increase | Decrease | Maintain

text \<open>The analysis returned; its \<^verbatim>\<open>reason\<close> text is not modelled.\<close>

record AdjustmentAnalysis =
  aa_currentWeight :: real
  aa_previousWeight :: real
  weightChange :: real
  weeklyWeightChange :: quotient
  aa_pattern :: pattern
  isStalled :: bool
  shouldAdjustNutrition :: bool
  shouldAdjustTraining :: bool
  nutritionAdjustment :: real
  aa_trainingAdjustment :: trainingAdjustment
  aa_warnings :: "string list"
  subjective :: "real option \<times> real option \<times> real option"

datatype error = NeedTwoCheckIns

text \<open>
  \<^verbatim>\<open>recentCheckIns.sort((a, b) => b.createdAt.getTime() - a.createdAt.getTime())\<close>:
  most recent first; the sort is stable.
\<close>

definition sortedCheckIns :: "CheckInData list \<Rightarrow> CheckInData list" where
  "sortedCheckIns recentCheckIns = sort_key (\<lambda>c. - createdAt c) recentCheckIns"

definition progressDataOf :: "CheckInData \<Rightarrow> CheckInData \<Rightarrow> goal \<Rightarrow> ProgressData" where
  "progressDataOf current previous g =
     (let timeDiff = createdAt current - createdAt previous;
          weeks = real_of_int timeDiff / (1000 * 60 * 60 * 24 * 7)
      in \<lparr> currentWeight = ci_weight current, previousWeight = ci_weight previous,
           weeksSinceLastCheckin = weeks, pd_goal = g \<rparr>)"

text \<open>\<^verbatim>\<open>x && x <= 2\<close> on an optional number: an absent value and zero are falsy.\<close>

definition truthyAnd :: "real option \<Rightarrow> (real \<Rightarrow> bool) \<Rightarrow> bool" where
  "truthyAnd v p = (case v of None \<Rightarrow> False | Some x \<Rightarrow> x \<noteq> 0 \<and> p x)"

text \<open>
  With fewer than two check-ins the source throws; the model returns the error. The sorted
  list is as long as the input, so \<open>sorted[0]\<close> and \<open>sorted[1]\<close> exist past
  that test and the last case of the model is never reached (lemma
  \<open>sortedCheckIns_two\<close> below).
\<close>

definition analyzeCheckInProgress ::
  "CheckInData list \<Rightarrow> real \<Rightarrow> goal \<Rightarrow> real \<Rightarrow> gender \<Rightarrow> error + AdjustmentAnalysis" where
  "analyzeCheckInProgress recentCheckIns expectedWeeklyChange g currentCal gen =
     (if length recentCheckIns < 2 then Inl NeedTwoCheckIns
      else case sortedCheckIns recentCheckIns of
        current # previous # _ \<Rightarrow>
          (let sortedList = sortedCheckIns recentCheckIns;
               progressData = progressDataOf current previous g;
               wChange = ci_weight current - ci_weight previous;
               weeklyChange = js_div wChange (weeksSinceLastCheckin progressData);
               recommendation = analyzeProgress progressData expectedWeeklyChange;
               recentWeights = map ci_weight (take 4 sortedList);
               stalled = detectStall recentWeights detectStall_default_threshold;
               finalAdjustment0 = recommendedCalorieChange recommendation;
               finalAdjustment =
                 (if shouldAdjust recommendation
                     \<and> \<not> isValid (validateAdjustment currentCal (currentCal + finalAdjustment0) gen)
                  then js_sign finalAdjustment0 * 100
                  else finalAdjustment0);
               training =
                 (if stalled \<and> g = MuscleGain then Increase
                  else if pattern recommendation = TooFast \<and> g = WeightLoss then Decrease
                  else Maintain);
               ws =
                 (if stalled
                  then [''Progress has stalled for 3+ weeks. Consider diet break or refeed.'']
                  else [])
                 @ (if truthyAnd (energyLevel current) (\<lambda>x. x \<le> 2)
                    then [''Low energy levels reported. Consider increasing calories or carbs.'']
                    else [])
                 @ (if truthyAnd (hungerLevel current) (\<lambda>x. x \<ge> 4)
                    then [''High hunger levels reported. Consider increasing protein or fiber.'']
                    else [])
                 @ (if truthyAnd (stressLevel current) (\<lambda>x. x \<ge> 4)
                    then [''High stress levels. Recovery may be compromised.'']
                    else [])
           in Inr \<lparr> aa_currentWeight = ci_weight current,
                     aa_previousWeight = ci_weight previous,
                     weightChange = wChange,
                     weeklyWeightChange = weeklyChange,
                     aa_pattern = pattern recommendation,
                     isStalled = stalled,
                     shouldAdjustNutrition = (shouldAdjust recommendation \<or> stalled),
                     shouldAdjustTraining = (training \<noteq> Maintain),
                     nutritionAdjustment = finalAdjustment,
                     aa_trainingAdjustment = training,
                     aa_warnings = ws,
                     subjective = (energyLevel current, hungerLevel current, stressLevel current) \<rparr>)
      | _ \<Rightarrow> Inl NeedTwoCheckIns)"

section \<open>Action selector\<close>

text \<open>
  The rule pack is a JSON document read at load time; the fields the action selector reads
  are the parameters of the model.
\<close>

record RulePack =
  minimumConfidenceForAction :: real
  calorieFloor_male :: real
  calorieFloor_female :: real
  maxDeficitPercent :: real
  maxSurplusPercent :: real

record UserContext =
  currentCalories :: real
  uc_tdee :: real
  uc_weight :: real
  uc_sex :: string
  uc_goal :: string

datatype trend = TrendDecreasing | TrendStable | TrendIncreasing

datatype riskLevel = RiskLow | RiskModerate | RiskHigh | RiskCritical

record SelectParams =
  sp_trend :: trend
  sp_riskLevel :: riskLevel
  confidence :: real
  currentMode :: string
  userContext :: UserContext

text \<open>The selection returned; its \<^verbatim>\<open>reasoning\<close> text is not modelled.\<close>

record CalorieSelection =
  adjustment :: real
  newCalories :: real

definition applyGuardrails :: "RulePack \<Rightarrow> real \<Rightarrow> UserContext \<Rightarrow> real" where
  "applyGuardrails rulePack target uc =
     (let calorieFloor = (if uc_sex uc = ''male'' then calorieFloor_male rulePack
                          else calorieFloor_female rulePack);
          maxDeficit = maxDeficitPercent rulePack / 100;
          minCaloriesFromDeficit = uc_tdee uc * (1 - maxDeficit);
          maxSurplus = maxSurplusPercent rulePack / 100;
          maxCaloriesFromSurplus = uc_tdee uc * (1 + maxSurplus)
      in if target < calorieFloor then calorieFloor
         else if target < minCaloriesFromDeficit then js_round minCaloriesFromDeficit
         else if target > maxCaloriesFromSurplus then js_round maxCaloriesFromSurplus
         else js_round target)"

definition selectCutAdjustment :: "RulePack \<Rightarrow> trend \<Rightarrow> UserContext \<Rightarrow> CalorieSelection" where
  "selectCutAdjustment rulePack t uc =
     (let adj = (if t = TrendDecreasing then 0 else if t = TrendStable then - 100 else - 150)
      in \<lparr> adjustment = adj,
           newCalories = applyGuardrails rulePack (currentCalories uc + adj) uc \<rparr>)"

definition selectGainAdjustment :: "RulePack \<Rightarrow> trend \<Rightarrow> UserContext \<Rightarrow> CalorieSelection" where
  "selectGainAdjustment rulePack t uc =
     (let adj = (if t = TrendIncreasing then 0 else if t = TrendStable then 100 else 150)
      in \<lparr> adjustment = adj,
           newCalories = applyGuardrails rulePack (currentCalories uc + adj) uc \<rparr>)"

text \<open>\<^verbatim>\<open>currentMode.startsWith('CUT')\<close> compares the first three characters.\<close>

definition selectCalorieAdjustment :: "RulePack \<Rightarrow> SelectParams \<Rightarrow> CalorieSelection" where
  "selectCalorieAdjustment rulePack params =
     (let uc = userContext params;
          minConfidence = minimumConfidenceForAction rulePack
      in if confidence params < minConfidence then
           \<lparr> adjustment = 0, newCalories = currentCalories uc \<rparr>
         else if sp_riskLevel params = RiskCritical then
           (let adj = 200
            in \<lparr> adjustment = adj,
                 newCalories = applyGuardrails rulePack (currentCalories uc + adj) uc \<rparr>)
         else if sp_riskLevel params = RiskHigh then
           (let adj = (if sp_trend params = TrendDecreasing then 100 else 0)
            in \<lparr> adjustment = adj,
                 newCalories = applyGuardrails rulePack (currentCalories uc + adj) uc \<rparr>)
         else if take 3 (currentMode params) = ''CUT'' then
           selectCutAdjustment rulePack (sp_trend params) uc
         else if take 4 (currentMode params) = ''GAIN'' then
           selectGainAdjustment rulePack (sp_trend params) uc
         else
           \<lparr> adjustment = 0, newCalories = currentCalories uc \<rparr>)"

section \<open>Properties\<close>

subsection \<open>Rounding\<close>

lemma js_round_of_int: "js_round (of_int n) = of_int n"
  by (simp add: js_round_def)

lemma js_round_add_int: "js_round (x + of_int m) = js_round x + of_int m"
proof -
  have "\<lfloor>x + of_int m + 1 / 2\<rfloor> = \<lfloor>(x + 1 / 2) + of_int m\<rfloor>"
    by (simp add: algebra_simps)
  also have "\<dots> = \<lfloor>x + 1 / 2\<rfloor> + m"
    by linarith
  finally show ?thesis by (simp add: js_round_def)
qed

lemma js_round_upper: "js_round x \<le> x + 1 / 2"
  unfolding js_round_def by linarith

lemma js_round_lower: "x - 1 / 2 < js_round x"
  unfolding js_round_def by linarith

subsection \<open>Energy balance\<close>

lemma weight_loss_deficit:
  "deficit (calculateTargetCalories \<lparr> tdee = t, goal = WeightLoss, weight = w \<rparr>)
     = max (js_round (t * (- 0.20))) (- 500)"
  by (simp add: calculateTargetCalories_def Let_def MAX_ADJUSTMENTS_deficit_def)

lemma muscle_gain_deficit:
  "deficit (calculateTargetCalories \<lparr> tdee = t, goal = MuscleGain, weight = w \<rparr>)
     = min (js_round (t * 0.08)) 300"
  by (simp add: calculateTargetCalories_def Let_def MAX_ADJUSTMENTS_surplus_def)

lemma capped_deficit_is_int:
  "max (js_round x) (- 500) = of_int (max \<lfloor>x + 1 / 2\<rfloor> (- 500))"
  by (simp add: js_round_def of_int_max)

lemma capped_surplus_is_int:
  "min (js_round x) 300 = of_int (min \<lfloor>x + 1 / 2\<rfloor> 300)"
  by (simp add: js_round_def of_int_min)

text \<open>The deficit is a whole number, so rounding the target only rounds the TDEE.\<close>

lemma weight_loss_target:
  "targetCalories (calculateTargetCalories \<lparr> tdee = t, goal = WeightLoss, weight = w \<rparr>)
     = js_round t + max (js_round (t * (- 0.20))) (- 500)"
proof -
  have "targetCalories (calculateTargetCalories \<lparr> tdee = t, goal = WeightLoss, weight = w \<rparr>)
          = js_round (t + max (js_round (t * (- 0.20))) (- 500))"
    by (simp add: calculateTargetCalories_def Let_def MAX_ADJUSTMENTS_deficit_def)
  then show ?thesis
    by (simp only: capped_deficit_is_int js_round_add_int)
qed

lemma muscle_gain_target:
  "targetCalories (calculateTargetCalories \<lparr> tdee = t, goal = MuscleGain, weight = w \<rparr>)
     = js_round t + min (js_round (t * 0.08)) 300"
proof -
  have "targetCalories (calculateTargetCalories \<lparr> tdee = t, goal = MuscleGain, weight = w \<rparr>)
          = js_round (t + min (js_round (t * 0.08)) 300)"
    by (simp add: calculateTargetCalories_def Let_def MAX_ADJUSTMENTS_surplus_def)
  then show ?thesis
    by (simp only: capped_surplus_is_int js_round_add_int)
qed

text \<open>
  Claim C1, as the code has it. \<open>calculateTargetCalories\<close> applies the percentage of the
  goal and then the absolute cap, the tighter of the two winning: the returned deficit is
  \<open>max (round (-0.20 * TDEE)) (-500)\<close> for weight loss and
  \<open>min (round (0.08 * TDEE)) 300\<close> for muscle gain. For every whole-number TDEE, which
  is what \<open>calculateTDEE\<close> returns, TDEE minus target calories is at most 500 for weight
  loss and target calories minus TDEE is at most 300 for muscle gain. For a TDEE with a
  fractional part the target is rounded to a whole number, so these distances stay below
  500.5 and at most 300.5. At TDEE 2759 the weight-loss target is 2259.
\<close>

theorem calculateTargetCalories_capped:
  "deficit (calculateTargetCalories \<lparr> tdee = t, goal = WeightLoss, weight = w \<rparr>)
       = max (js_round (t * (- 0.20))) (- 500)
   \<and> deficit (calculateTargetCalories \<lparr> tdee = t, goal = MuscleGain, weight = w \<rparr>)
       = min (js_round (t * 0.08)) 300
   \<and> of_int n - targetCalories (calculateTargetCalories
         \<lparr> tdee = of_int n, goal = WeightLoss, weight = w \<rparr>) \<le> 500
   \<and> targetCalories (calculateTargetCalories
         \<lparr> tdee = of_int n, goal = MuscleGain, weight = w \<rparr>) - of_int n \<le> 300
   \<and> t - targetCalories (calculateTargetCalories
         \<lparr> tdee = t, goal = WeightLoss, weight = w \<rparr>) < 500 + 1 / 2
   \<and> targetCalories (calculateTargetCalories
         \<lparr> tdee = t, goal = MuscleGain, weight = w \<rparr>) - t \<le> 300 + 1 / 2
   \<and> targetCalories (calculateTargetCalories
         \<lparr> tdee = 2759, goal = WeightLoss, weight = w \<rparr>) = 2259"
proof (intro conjI)
  show "deficit (calculateTargetCalories \<lparr> tdee = t, goal = WeightLoss, weight = w \<rparr>)
          = max (js_round (t * (- 0.20))) (- 500)"
    by (rule weight_loss_deficit)
  show "deficit (calculateTargetCalories \<lparr> tdee = t, goal = MuscleGain, weight = w \<rparr>)
          = min (js_round (t * 0.08)) 300"
    by (rule muscle_gain_deficit)
  show "of_int n - targetCalories (calculateTargetCalories
          \<lparr> tdee = of_int n, goal = WeightLoss, weight = w \<rparr>) \<le> 500"
    by (simp add: weight_loss_target js_round_of_int)
  show "targetCalories (calculateTargetCalories
          \<lparr> tdee = of_int n, goal = MuscleGain, weight = w \<rparr>) - of_int n \<le> 300"
    by (simp add: muscle_gain_target js_round_of_int)
  show "t - targetCalories (calculateTargetCalories
          \<lparr> tdee = t, goal = WeightLoss, weight = w \<rparr>) < 500 + 1 / 2"
    using js_round_lower [of t] by (simp add: weight_loss_target max_def)
  show "targetCalories (calculateTargetCalories
          \<lparr> tdee = t, goal = MuscleGain, weight = w \<rparr>) - t \<le> 300 + 1 / 2"
    using js_round_upper [of t] by (simp add: muscle_gain_target min_def)
  show "targetCalories (calculateTargetCalories
          \<lparr> tdee = 2759, goal = WeightLoss, weight = w \<rparr>) = 2259"
    by (simp add: calculateTargetCalories_def Let_def MAX_ADJUSTMENTS_deficit_def js_round_def)
qed

text \<open>
  Claim C1 as written fails for a TDEE with a fractional part: at TDEE 3000.4 the
  weight-loss target is 2500, which is 500.4 below the TDEE.
\<close>

theorem calculateTargetCalories_fractional_tdee_counterexample:
  "(0::real) < 3000.4 \<and> (0::real) < 80
   \<and> \<not> (3000.4 - targetCalories (calculateTargetCalories
            \<lparr> tdee = 3000.4, goal = WeightLoss, weight = 80 \<rparr>) \<le> 500)"
  by (simp add: calculateTargetCalories_def Let_def MAX_ADJUSTMENTS_deficit_def js_round_def)

subsection \<open>Safety validator\<close>

text \<open>
  Claim C2. For every plan checked by \<open>validateNutritionPlan\<close>: calories below the floor
  of the sex (1500 male, 1200 female) put the calorie violation into the result, whose
  list of violations is then not empty and whose \<open>isValid\<close> is false; and a result with
  \<open>isValid\<close> true has calories at or above that floor.
\<close>

theorem validateNutritionPlan_calorie_floor:
  "(calories < MIN_CALORIES gen \<longrightarrow>
      CaloriesBelowMinimum calories (MIN_CALORIES gen)
        \<in> set (violations (validateNutritionPlan calories prot w gen td g))
      \<and> violations (validateNutritionPlan calories prot w gen td g) \<noteq> []
      \<and> \<not> isValid (validateNutritionPlan calories prot w gen td g))
   \<and> (isValid (validateNutritionPlan calories prot w gen td g) \<longrightarrow>
        MIN_CALORIES gen \<le> calories)
   \<and> MIN_CALORIES Male = 1500 \<and> MIN_CALORIES Female = 1200"
  by (simp add: validateNutritionPlan_def Let_def)

theorem validateNutritionPlan_calorie_floor_witness:
  "(1400 < MIN_CALORIES Male
      \<and> \<not> isValid (validateNutritionPlan 1400 192 80 Male 1900 WeightLoss))
   \<and> (isValid (validateNutritionPlan 2259 192 80 Male 2759 WeightLoss)
      \<and> MIN_CALORIES Male \<le> 2259)"
proof -
  have below: "(1400::real) < MIN_CALORIES Male" by simp
  have valid: "isValid (validateNutritionPlan 2259 192 80 Male 2759 WeightLoss)"
    by (simp add: validateNutritionPlan_def Let_def SAFETY_MAX_deficit_def
        SAFETY_MAX_surplus_def SAFETY_MAX_weeklyWeightLoss_def)
  from below valid
    validateNutritionPlan_calorie_floor [of 1400 Male 192 80 1900 WeightLoss]
    validateNutritionPlan_calorie_floor [of 2259 Male 192 80 2759 WeightLoss]
  show ?thesis by blast
qed

subsection \<open>Macro calculator\<close>

lemma macro_total:
  "proteinCalories (calculateMacros input) + fatCalories (calculateMacros input)
     + carbsCalories (calculateMacros input)
   = proteinCalories (calculateMacros input) + fatCalories (calculateMacros input)
     + max 0 (js_round ((mi_targetCalories input - proteinCalories (calculateMacros input)
                          - fatCalories (calculateMacros input)) / 4)) * 4"
  by (simp add: calculateMacros_def calculateCarbs_def Let_def)

lemma macro_carbs:
  "carbs (calculateMacros input)
   = max 0 (js_round ((mi_targetCalories input - proteinCalories (calculateMacros input)
                          - fatCalories (calculateMacros input)) / 4))"
  by (simp add: calculateMacros_def calculateCarbs_def Let_def)

text \<open>When protein and fat fit into the target, rounding the carbohydrate grams costs at
  most 2 kcal.\<close>

lemma macro_sum_within_two:
  assumes "proteinCalories (calculateMacros input) + fatCalories (calculateMacros input)
             \<le> mi_targetCalories input"
  shows "\<bar>proteinCalories (calculateMacros input) + fatCalories (calculateMacros input)
            + carbsCalories (calculateMacros input) - mi_targetCalories input\<bar> \<le> 2"
proof -
  define t where "t = mi_targetCalories input"
  define pf where
    "pf = proteinCalories (calculateMacros input) + fatCalories (calculateMacros input)"
  define r where "r = t - pf"
  define c where "c = js_round (r / 4)"
  have r0: "0 \<le> r" using assms by (simp add: r_def t_def pf_def)
  have up: "c \<le> r / 4 + 1 / 2" unfolding c_def by (rule js_round_upper)
  have lo: "r / 4 - 1 / 2 < c" unfolding c_def by (rule js_round_lower)
  have nn: "0 \<le> c" using r0 by (simp add: c_def js_round_def)
  have tot: "proteinCalories (calculateMacros input) + fatCalories (calculateMacros input)
               + carbsCalories (calculateMacros input) = pf + max 0 c * 4"
    unfolding pf_def c_def r_def t_def by (simp add: macro_total diff_diff_eq)
  have c4u: "c * 4 \<le> r + 2" using up by simp
  have c4l: "r - 2 < c * 4" using lo by simp
  have m: "max 0 c = c" using nn by simp
  have "\<bar>pf + max 0 c * 4 - t\<bar> \<le> 2"
    unfolding m using c4u c4l by (simp add: r_def abs_le_iff)
  then show ?thesis unfolding tot t_def .
qed

text \<open>When protein and fat alone exceed the target, the carbohydrates are cut off at zero.\<close>

lemma macro_carbs_zero:
  assumes "mi_targetCalories input
             < proteinCalories (calculateMacros input) + fatCalories (calculateMacros input)"
  shows "carbs (calculateMacros input) = 0"
proof -
  define r where "r = mi_targetCalories input - proteinCalories (calculateMacros input)
                        - fatCalories (calculateMacros input)"
  have r0: "r < 0" using assms by (simp add: r_def)
  have "js_round (r / 4) \<le> r / 4 + 1 / 2" by (rule js_round_upper)
  with r0 have lt: "js_round (r / 4) < 1" by simp
  obtain k :: int where ck: "js_round (r / 4) = of_int k" by (simp add: js_round_def)
  from lt have "k < 1" unfolding ck by simp
  then have "k \<le> 0" by simp
  then have "js_round (r / 4) \<le> 0" unfolding ck by simp
  then show ?thesis unfolding macro_carbs r_def [symmetric] by simp
qed

text \<open>
  Claim C3, as the code has it. \<open>calculateMacros\<close> never returns negative carbohydrate
  grams. When the calories of the protein and fat grams, which body weight and goal alone
  fix, do not exceed the target calories, the three macro calorie components add up to
  within 2 kcal of the target. When they exceed the target, the carbohydrates are 0 g and
  the components add up to the protein and fat calories alone. For target calories of at
  least 40 kcal, \<open>validateMacros\<close> on the result is true exactly when the protein and
  fat calories are at most 105% of the target calories.
\<close>

theorem calculateMacros_reconstructs_target:
  "0 \<le> carbs (calculateMacros input)
   \<and> (proteinCalories (calculateMacros input) + fatCalories (calculateMacros input)
          \<le> mi_targetCalories input \<longrightarrow>
        \<bar>proteinCalories (calculateMacros input) + fatCalories (calculateMacros input)
           + carbsCalories (calculateMacros input) - mi_targetCalories input\<bar> \<le> 2)
   \<and> (mi_targetCalories input
          < proteinCalories (calculateMacros input) + fatCalories (calculateMacros input) \<longrightarrow>
        carbs (calculateMacros input) = 0
        \<and> proteinCalories (calculateMacros input) + fatCalories (calculateMacros input)
            + carbsCalories (calculateMacros input)
          = proteinCalories (calculateMacros input) + fatCalories (calculateMacros input))
   \<and> (40 \<le> mi_targetCalories input \<longrightarrow>
        (validateMacros (calculateMacros input) (mi_targetCalories input)
         \<longleftrightarrow> proteinCalories (calculateMacros input) + fatCalories (calculateMacros input)
               \<le> mi_targetCalories input * 1.05))"
proof (intro conjI impI)
  show "0 \<le> carbs (calculateMacros input)"
    by (simp add: calculateMacros_def calculateCarbs_def Let_def)
next
  assume "proteinCalories (calculateMacros input) + fatCalories (calculateMacros input)
            \<le> mi_targetCalories input"
  then show "\<bar>proteinCalories (calculateMacros input) + fatCalories (calculateMacros input)
           + carbsCalories (calculateMacros input) - mi_targetCalories input\<bar> \<le> 2"
    by (rule macro_sum_within_two)
next
  assume "mi_targetCalories input
            < proteinCalories (calculateMacros input) + fatCalories (calculateMacros input)"
  then show "carbs (calculateMacros input) = 0"
    by (rule macro_carbs_zero)
next
  assume "mi_targetCalories input
            < proteinCalories (calculateMacros input) + fatCalories (calculateMacros input)"
  then have "carbs (calculateMacros input) = 0"
    by (rule macro_carbs_zero)
  then have "carbsCalories (calculateMacros input) = 0"
    by (simp add: calculateMacros_def Let_def)
  then show "proteinCalories (calculateMacros input) + fatCalories (calculateMacros input)
            + carbsCalories (calculateMacros input)
          = proteinCalories (calculateMacros input) + fatCalories (calculateMacros input)"
    by simp
next
  assume big: "40 \<le> mi_targetCalories input"
  define t where "t = mi_targetCalories input"
  define pf where
    "pf = proteinCalories (calculateMacros input) + fatCalories (calculateMacros input)"
  define r where "r = t - pf"
  define c where "c = js_round (r / 4)"
  have up: "c \<le> r / 4 + 1 / 2" unfolding c_def by (rule js_round_upper)
  have lo: "r / 4 - 1 / 2 < c" unfolding c_def by (rule js_round_lower)
  have tol: "t * 1.05 = t + t * 0.05" by simp
  have two: "2 \<le> t * 0.05" using big by (simp add: t_def)
  have tot: "proteinCalories (calculateMacros input) + fatCalories (calculateMacros input)
               + carbsCalories (calculateMacros input) = pf + max 0 c * 4"
    unfolding pf_def c_def r_def t_def by (simp add: macro_total diff_diff_eq)
  have v: "validateMacros (calculateMacros input) t
             \<longleftrightarrow> \<bar>pf + max 0 c * 4 - t\<bar> \<le> t * 0.05"
    unfolding validateMacros_def Let_def tot by simp
  show "validateMacros (calculateMacros input) (mi_targetCalories input)
         \<longleftrightarrow> proteinCalories (calculateMacros input) + fatCalories (calculateMacros input)
               \<le> mi_targetCalories input * 1.05"
  proof (cases "0 \<le> c")
    case True
    have c4u: "c * 4 \<le> r + 2" using up by simp
    have c4l: "r - 2 < c * 4" using lo by simp
    have m: "max 0 c = c" using True by simp
    have "\<bar>pf + max 0 c * 4 - t\<bar> \<le> 2"
      unfolding m using c4u c4l by (simp add: r_def abs_le_iff)
    moreover have "pf \<le> t + 2" using True c4u by (simp add: r_def)
    ultimately show ?thesis
      unfolding t_def [symmetric] pf_def [symmetric] v tol using two by linarith
  next
    case False
    obtain k :: int where ck: "c = of_int k" by (simp add: c_def js_round_def)
    from False have "k < 0" by (simp add: ck)
    then have "k \<le> - 1" by simp
    then have "c \<le> - 1" unfolding ck by (metis of_int_le_iff of_int_minus of_int_1)
    with lo have r0: "r < 0" by simp
    have m: "max 0 c = 0" using False by simp
    have "\<bar>pf + max 0 c * 4 - t\<bar> = pf - t"
      unfolding m using r0 by (simp add: r_def)
    then show ?thesis
      unfolding t_def [symmetric] pf_def [symmetric] v tol by linarith
  qed
qed

text \<open>
  Three people on a weight-loss goal: 80 kg at 2200 kcal, where protein and fat carry 1416
  kcal and the sum is within 2 kcal of the target; 100 kg at 1700 kcal, where protein and
  fat carry 1770 kcal, carbohydrates are 0 g and the sum is still within 5%; 100 kg at 1500
  kcal, where it is not.
\<close>

theorem calculateMacros_reconstructs_target_witness:
  "((40::real) \<le> 2200 \<and> (768::real) + 648 \<le> 2200
      \<and> validateMacros (calculateMacros
            \<lparr> mi_weight = 80, mi_targetCalories = 2200, mi_goal = WeightLoss,
              mi_activityLevel = Moderate \<rparr>) 2200
      \<and> \<bar>768 + 648 + carbsCalories (calculateMacros
            \<lparr> mi_weight = 80, mi_targetCalories = 2200, mi_goal = WeightLoss,
              mi_activityLevel = Moderate \<rparr>) - 2200\<bar> \<le> 2)
   \<and> ((40::real) \<le> 1700 \<and> (1700::real) < 960 + 810
      \<and> carbs (calculateMacros
            \<lparr> mi_weight = 100, mi_targetCalories = 1700, mi_goal = WeightLoss,
              mi_activityLevel = Sedentary \<rparr>) = 0
      \<and> validateMacros (calculateMacros
            \<lparr> mi_weight = 100, mi_targetCalories = 1700, mi_goal = WeightLoss,
              mi_activityLevel = Sedentary \<rparr>) 1700)
   \<and> ((40::real) \<le> 1500 \<and> (1500::real) < 960 + 810
      \<and> carbs (calculateMacros
            \<lparr> mi_weight = 100, mi_targetCalories = 1500, mi_goal = WeightLoss,
              mi_activityLevel = Sedentary \<rparr>) = 0
      \<and> \<not> validateMacros (calculateMacros
            \<lparr> mi_weight = 100, mi_targetCalories = 1500, mi_goal = WeightLoss,
              mi_activityLevel = Sedentary \<rparr>) 1500)"
proof -
  let ?a = "\<lparr> mi_weight = 80, mi_targetCalories = 2200, mi_goal = WeightLoss,
              mi_activityLevel = Moderate \<rparr>"
  let ?b = "\<lparr> mi_weight = 100, mi_targetCalories = 1700, mi_goal = WeightLoss,
              mi_activityLevel = Sedentary \<rparr>"
  let ?c = "\<lparr> mi_weight = 100, mi_targetCalories = 1500, mi_goal = WeightLoss,
              mi_activityLevel = Sedentary \<rparr>"
  have pa: "proteinCalories (calculateMacros ?a) = 768"
    by (simp add: calculateMacros_def calculateProtein_def Let_def js_round_def)
  have fa: "fatCalories (calculateMacros ?a) = 648"
    by (simp add: calculateMacros_def calculateFat_def Let_def js_round_def)
  have pb: "proteinCalories (calculateMacros ?b) = 960"
    by (simp add: calculateMacros_def calculateProtein_def Let_def js_round_def)
  have fb: "fatCalories (calculateMacros ?b) = 810"
    by (simp add: calculateMacros_def calculateFat_def Let_def js_round_def)
  have pc: "proteinCalories (calculateMacros ?c) = 960"
    by (simp add: calculateMacros_def calculateProtein_def Let_def js_round_def)
  have fc: "fatCalories (calculateMacros ?c) = 810"
    by (simp add: calculateMacros_def calculateFat_def Let_def js_round_def)
  show ?thesis
    using calculateMacros_reconstructs_target [of ?a]
      calculateMacros_reconstructs_target [of ?b]
      calculateMacros_reconstructs_target [of ?c]
    by (simp add: pa fa pb fb pc fc)
qed

text \<open>
  Claim C3 as written fails for a heavy person on few calories: at 100 kg and 1500 kcal
  for weight loss, protein (240 g) and fat (90 g) already carry 1770 kcal, carbohydrates
  are 0 g, and 1770 is more than 5% away from 1500.
\<close>

theorem calculateMacros_low_calorie_counterexample:
  "(0::real) < 100 \<and> (0::real) < 1500
   \<and> \<not> validateMacros (calculateMacros
          \<lparr> mi_weight = 100, mi_targetCalories = 1500, mi_goal = WeightLoss,
            mi_activityLevel = Sedentary \<rparr>) 1500"
  by (simp add: validateMacros_def calculateMacros_def calculateProtein_def calculateFat_def
      calculateCarbs_def Let_def js_round_def)

subsection \<open>Calorie adjustment\<close>




subsection \<open>Progress analysis\<close>

text \<open>
  Claim C4 at a concrete input. A person on a weight-loss goal went from 80 kg to 80.5 kg
  in one week against an expected change of -0.6 kg/week. The difference of 1.1 is outside
  the 0.2 deadband and the actual change is not negative, yet the result is the pattern
  \<open>TooSlow\<close> with a change of -200, not \<open>Reversed\<close> with -150: the test for a change
  more than 0.3 above the expected one comes first.
\<close>

theorem analyzeProgress_gain_during_cut:
  "analyzeProgress
     \<lparr> currentWeight = 80.5, previousWeight = 80, weeksSinceLastCheckin = 1,
       pd_goal = WeightLoss \<rparr> (- 0.6)
   = \<lparr> shouldAdjust = True, recommendedCalorieChange = - 200, pattern = TooSlow \<rparr>"
  by (simp add: analyzeProgress_def Let_def js_div_def js_round_def)

text \<open>With an expected weekly change below -0.3 the branch for \<open>Reversed\<close> is never taken.\<close>

lemma weight_loss_reversed_unreachable:
  "expected < - 0.3 \<Longrightarrow> pattern (analyzeWeightLossProgress q expected) \<noteq> Reversed"
  by (cases q) (simp_all add: Let_def)

text \<open>A recommendation that does not ask for an adjustment recommends a change of zero.\<close>

lemma weight_loss_no_adjust_zero:
  "\<not> shouldAdjust (analyzeWeightLossProgress q e) \<Longrightarrow>
     recommendedCalorieChange (analyzeWeightLossProgress q e) = 0"
  by (cases q) (simp_all add: Let_def split: if_splits)

lemma muscle_gain_no_adjust_zero:
  "\<not> shouldAdjust (analyzeMuscleGainProgress q e) \<Longrightarrow>
     recommendedCalorieChange (analyzeMuscleGainProgress q e) = 0"
  by (cases q) (simp_all split: if_splits)

lemma maintenance_no_adjust_zero:
  "\<not> shouldAdjust (analyzeMaintenanceProgress q) \<Longrightarrow>
     recommendedCalorieChange (analyzeMaintenanceProgress q) = 0"
  by (cases q) (simp_all add: Let_def split: if_splits)

lemma no_adjust_zero:
  "\<not> shouldAdjust (analyzeProgress pd e) \<Longrightarrow>
     recommendedCalorieChange (analyzeProgress pd e) = 0"
  unfolding analyzeProgress_def Let_def
  using weight_loss_no_adjust_zero muscle_gain_no_adjust_zero maintenance_no_adjust_zero
  by (simp split: if_splits)

subsection \<open>Adjustment engine\<close>

lemma length_sortedCheckIns: "length (sortedCheckIns cs) = length cs"
  by (simp add: sortedCheckIns_def)

lemma sortedCheckIns_two:
  assumes "2 \<le> length cs"
  obtains cur prev rest where "sortedCheckIns cs = cur # prev # rest"
proof -
  have "2 \<le> length (sortedCheckIns cs)"
    using assms by (simp add: length_sortedCheckIns)
  then obtain cur prev rest where "sortedCheckIns cs = cur # prev # rest"
    by (cases "sortedCheckIns cs"; cases "tl (sortedCheckIns cs)") auto
  then show ?thesis using that by blast
qed

text \<open>What the analysis returns once the two most recent check-ins are known.\<close>

lemma analyzeCheckInProgress_result:
  assumes "sortedCheckIns cs = cur # prev # rest"
  shows "\<exists>r. analyzeCheckInProgress cs e g cal gen = Inr r
     \<and> nutritionAdjustment r =
        (let recommendation = analyzeProgress (progressDataOf cur prev g) e;
             c = recommendedCalorieChange recommendation
         in if shouldAdjust recommendation
               \<and> \<not> isValid (validateAdjustment cal (cal + c) gen)
            then js_sign c * 100 else c)
     \<and> isStalled r
         = detectStall (map ci_weight (take 4 (sortedCheckIns cs))) detectStall_default_threshold
     \<and> aa_pattern r = pattern (analyzeProgress (progressDataOf cur prev g) e)"
proof -
  have "length (sortedCheckIns cs) = length cs" by (rule length_sortedCheckIns)
  with assms have "\<not> length cs < 2" by simp
  then show ?thesis
    using assms by (simp add: analyzeCheckInProgress_def Let_def)
qed

text \<open>
  Claim C7. For every call of \<open>analyzeCheckInProgress\<close> with at least two check-ins, the
  call returns an analysis, and whenever the recommended calorie change fails
  \<open>validateAdjustment\<close> (current calories against current calories plus the
  recommendation), the returned \<open>nutritionAdjustment\<close> is the sign of the recommendation
  times 100. The recommendation is that of \<open>analyzeProgress\<close> on the two most recent
  check-ins.
\<close>

theorem analyzeCheckInProgress_unsafe_clamped:
  assumes "2 \<le> length cs"
  shows "\<exists>cur prev rest r.
           sortedCheckIns cs = cur # prev # rest
         \<and> analyzeCheckInProgress cs e g cal gen = Inr r
         \<and> (\<not> isValid (validateAdjustment cal
                 (cal + recommendedCalorieChange
                          (analyzeProgress (progressDataOf cur prev g) e)) gen)
            \<longrightarrow> nutritionAdjustment r
                = js_sign (recommendedCalorieChange
                             (analyzeProgress (progressDataOf cur prev g) e)) * 100)"
proof -
  from assms obtain cur prev rest where s: "sortedCheckIns cs = cur # prev # rest"
    by (rule sortedCheckIns_two)
  from analyzeCheckInProgress_result [OF s, of e g cal gen] obtain r where
    r: "analyzeCheckInProgress cs e g cal gen = Inr r"
    and n: "nutritionAdjustment r =
        (let recommendation = analyzeProgress (progressDataOf cur prev g) e;
             c = recommendedCalorieChange recommendation
         in if shouldAdjust recommendation
               \<and> \<not> isValid (validateAdjustment cal (cal + c) gen)
            then js_sign c * 100 else c)"
    by blast
  have "\<not> isValid (validateAdjustment cal
            (cal + recommendedCalorieChange
                     (analyzeProgress (progressDataOf cur prev g) e)) gen)
        \<longrightarrow> nutritionAdjustment r
            = js_sign (recommendedCalorieChange
                         (analyzeProgress (progressDataOf cur prev g) e)) * 100"
    using no_adjust_zero [of "progressDataOf cur prev g" e]
    by (auto simp add: n Let_def js_sign_def)
  with s r show ?thesis by blast
qed

text \<open>
  A woman on 1300 kcal gained half a kilogram in a week on a weight-loss goal. The
  recommendation of -200 would take her to 1100 kcal, below the floor of 1200, so the
  adjustment returned is -100.
\<close>

theorem analyzeCheckInProgress_unsafe_clamped_witness:
  "2 \<le> length
      [\<lparr> ci_weight = 80, createdAt = 0, energyLevel = None, hungerLevel = None,
         stressLevel = None \<rparr>,
       \<lparr> ci_weight = 80.5, createdAt = 604800000, energyLevel = None, hungerLevel = None,
         stressLevel = None \<rparr>]
   \<and> (\<exists>r. analyzeCheckInProgress
      [\<lparr> ci_weight = 80, createdAt = 0, energyLevel = None, hungerLevel = None,
         stressLevel = None \<rparr>,
       \<lparr> ci_weight = 80.5, createdAt = 604800000, energyLevel = None, hungerLevel = None,
         stressLevel = None \<rparr>]
      (- 0.6) WeightLoss 1300 Female = Inr r
      \<and> \<not> isValid (validateAdjustment 1300 (1300 + (- 200)) Female)
      \<and> nutritionAdjustment r = - 100)"
proof -
  let ?a = "\<lparr> ci_weight = 80, createdAt = 0, energyLevel = None, hungerLevel = None,
              stressLevel = None \<rparr>"
  let ?b = "\<lparr> ci_weight = 80.5, createdAt = 604800000, energyLevel = None,
              hungerLevel = None, stressLevel = None \<rparr>"
  have len: "2 \<le> length [?a, ?b]" by simp
  have srt: "sortedCheckIns [?a, ?b] = [?b, ?a]"
    by (simp add: sortedCheckIns_def)
  have pd: "progressDataOf ?b ?a WeightLoss
      = \<lparr> currentWeight = 80.5, previousWeight = 80, weeksSinceLastCheckin = 1,
          pd_goal = WeightLoss \<rparr>"
    by (simp add: progressDataOf_def Let_def)
  have rec: "recommendedCalorieChange
               (analyzeProgress (progressDataOf ?b ?a WeightLoss) (- 0.6)) = - 200"
    unfolding pd by (simp add: analyzeProgress_def Let_def js_div_def js_round_def)
  have bad: "\<not> isValid (validateAdjustment 1300 (1300 + (- 200)) Female)"
    by (simp add: validateAdjustment_def Let_def)
  from analyzeCheckInProgress_unsafe_clamped [OF len, of "- 0.6" WeightLoss 1300 Female]
  obtain cur prev rest r where
    s: "sortedCheckIns [?a, ?b] = cur # prev # rest"
    and r: "analyzeCheckInProgress [?a, ?b] (- 0.6) WeightLoss 1300 Female = Inr r"
    and n: "\<not> isValid (validateAdjustment 1300
               (1300 + recommendedCalorieChange
                         (analyzeProgress (progressDataOf cur prev WeightLoss) (- 0.6))) Female)
            \<longrightarrow> nutritionAdjustment r
                = js_sign (recommendedCalorieChange
                             (analyzeProgress (progressDataOf cur prev WeightLoss) (- 0.6))) * 100"
    by blast
  from s srt have cp: "cur = ?b" "prev = ?a" by simp_all
  from n bad have "nutritionAdjustment r = js_sign (- 200) * 100"
    unfolding cp rec by blast
  then have "nutritionAdjustment r = - 100" by (simp add: js_sign_def)
  with len r bad show ?thesis by blast
qed


subsection \<open>Stall detection\<close>

lemma detectStall_short:
  "length ws < 3 \<Longrightarrow> \<not> detectStall ws detectStall_default_threshold"
  by (simp add: detectStall_def detectStall_default_threshold_def)

lemma detectStall_close:
  "3 \<le> length ws \<Longrightarrow> Max (set ws) - Min (set ws) < 0.3 \<Longrightarrow>
     detectStall ws detectStall_default_threshold"
  by (auto simp add: detectStall_def detectStall_default_threshold_def Let_def)

text \<open>
  Claim C8. For every list of four most recent weights whose span, maximum minus minimum,
  is below 0.3 kg, \<open>detectStall\<close> with its default threshold returns true. The progress
  pattern plays no part: whenever the four most recent check-ins of a call of
  \<open>analyzeCheckInProgress\<close> have such weights, the analysis returned has \<open>isStalled\<close>
  true, for every goal, expected weekly change, calorie level and sex.
\<close>

theorem detectStall_four_close_weights:
  "(length ws = 4 \<and> Max (set ws) - Min (set ws) < 0.3
      \<longrightarrow> detectStall ws detectStall_default_threshold)
   \<and> (4 \<le> length cs
        \<and> Max (set (map ci_weight (take 4 (sortedCheckIns cs))))
            - Min (set (map ci_weight (take 4 (sortedCheckIns cs)))) < 0.3
      \<longrightarrow> (\<exists>r. analyzeCheckInProgress cs e g cal gen = Inr r \<and> isStalled r))"
proof (intro conjI impI)
  assume "length ws = 4 \<and> Max (set ws) - Min (set ws) < 0.3"
  then show "detectStall ws detectStall_default_threshold"
    by (simp add: detectStall_close)
next
  let ?ws = "map ci_weight (take 4 (sortedCheckIns cs))"
  assume a: "4 \<le> length cs \<and> Max (set ?ws) - Min (set ?ws) < 0.3"
  then have "2 \<le> length cs" by simp
  then obtain cur prev rest where s: "sortedCheckIns cs = cur # prev # rest"
    by (rule sortedCheckIns_two)
  from analyzeCheckInProgress_result [OF s, of e g cal gen] obtain r where
    r: "analyzeCheckInProgress cs e g cal gen = Inr r"
    and st: "isStalled r = detectStall ?ws detectStall_default_threshold"
    by blast
  have "length ?ws = 4" using a by (simp add: length_sortedCheckIns)
  with a have "detectStall ?ws detectStall_default_threshold"
    by (simp add: detectStall_close)
  with r st show "\<exists>r. analyzeCheckInProgress cs e g cal gen = Inr r \<and> isStalled r"
    by blast
qed

theorem detectStall_four_close_weights_witness:
  "(length [80.1, 80.0, 80.2, 80.1 :: real] = 4
      \<and> Max (set [80.1, 80.0, 80.2, 80.1 :: real]) - Min (set [80.1, 80.0, 80.2, 80.1]) < 0.3
      \<and> detectStall [80.1, 80.0, 80.2, 80.1] detectStall_default_threshold)
   \<and> (4 \<le> length
        [\<lparr> ci_weight = 80.2, createdAt = 0, energyLevel = None, hungerLevel = None,
           stressLevel = None \<rparr>,
         \<lparr> ci_weight = 80.1, createdAt = 604800000, energyLevel = None, hungerLevel = None,
           stressLevel = None \<rparr>,
         \<lparr> ci_weight = 80.0, createdAt = 1209600000, energyLevel = None, hungerLevel = None,
           stressLevel = None \<rparr>,
         \<lparr> ci_weight = 80.1, createdAt = 1814400000, energyLevel = None, hungerLevel = None,
           stressLevel = None \<rparr>]
      \<and> (\<exists>r. analyzeCheckInProgress
        [\<lparr> ci_weight = 80.2, createdAt = 0, energyLevel = None, hungerLevel = None,
           stressLevel = None \<rparr>,
         \<lparr> ci_weight = 80.1, createdAt = 604800000, energyLevel = None, hungerLevel = None,
           stressLevel = None \<rparr>,
         \<lparr> ci_weight = 80.0, createdAt = 1209600000, energyLevel = None, hungerLevel = None,
           stressLevel = None \<rparr>,
         \<lparr> ci_weight = 80.1, createdAt = 1814400000, energyLevel = None, hungerLevel = None,
           stressLevel = None \<rparr>]
        (- 0.6) WeightLoss 2000 Male = Inr r \<and> isStalled r))"
proof -
  let ?ws = "[80.1, 80.0, 80.2, 80.1 :: real]"
  let ?cs = "[\<lparr> ci_weight = 80.2, createdAt = 0, energyLevel = None, hungerLevel = None,
           stressLevel = None \<rparr>,
         \<lparr> ci_weight = 80.1, createdAt = 604800000, energyLevel = None, hungerLevel = None,
           stressLevel = None \<rparr>,
         \<lparr> ci_weight = 80.0, createdAt = 1209600000, energyLevel = None, hungerLevel = None,
           stressLevel = None \<rparr>,
         \<lparr> ci_weight = 80.1, createdAt = 1814400000, energyLevel = None, hungerLevel = None,
           stressLevel = None \<rparr>]"
  have w: "length ?ws = 4 \<and> Max (set ?ws) - Min (set ?ws) < 0.3" by simp
  have srt: "map ci_weight (take 4 (sortedCheckIns ?cs)) = [80.1, 80.0, 80.1, 80.2]"
    by (simp add: sortedCheckIns_def)
  have c: "4 \<le> length ?cs
     \<and> Max (set (map ci_weight (take 4 (sortedCheckIns ?cs))))
         - Min (set (map ci_weight (take 4 (sortedCheckIns ?cs)))) < 0.3"
    unfolding srt by simp
  from w c detectStall_four_close_weights [of ?ws ?cs "- 0.6" WeightLoss 2000 Male]
  show ?thesis by blast
qed

text \<open>The comparison is strict: four weights that span 0.3 kg exactly are not a stall.\<close>

lemma detectStall_span_of_exactly_three_tenths:
  "Max (set [80.4, 80.3, 80.2, 80.1 :: real]) - Min (set [80.4, 80.3, 80.2, 80.1]) = 0.3
   \<and> \<not> detectStall [80.4, 80.3, 80.2, 80.1] detectStall_default_threshold"
  by (simp add: detectStall_def detectStall_default_threshold_def Let_def)

text \<open>
  Claim C10. For every list of fewer than three weights \<open>detectStall\<close> with its default
  threshold of 3 returns false; so an analysis of exactly two check-ins never reports a
  stall, however close the two weights are.
\<close>

theorem detectStall_needs_three_weights:
  "(length ws < 3 \<longrightarrow> \<not> detectStall ws detectStall_default_threshold)
   \<and> (length cs = 2
      \<longrightarrow> (\<exists>r. analyzeCheckInProgress cs e g cal gen = Inr r \<and> \<not> isStalled r))"
proof (intro conjI impI)
  assume "length ws < 3"
  then show "\<not> detectStall ws detectStall_default_threshold"
    by (rule detectStall_short)
next
  assume a: "length cs = 2"
  then have "2 \<le> length cs" by simp
  then obtain cur prev rest where s: "sortedCheckIns cs = cur # prev # rest"
    by (rule sortedCheckIns_two)
  from analyzeCheckInProgress_result [OF s, of e g cal gen] obtain r where
    r: "analyzeCheckInProgress cs e g cal gen = Inr r"
    and st: "isStalled r
        = detectStall (map ci_weight (take 4 (sortedCheckIns cs))) detectStall_default_threshold"
    by blast
  have "length (map ci_weight (take 4 (sortedCheckIns cs))) < 3"
    using a by (simp add: length_sortedCheckIns)
  then have "\<not> detectStall (map ci_weight (take 4 (sortedCheckIns cs))) detectStall_default_threshold"
    by (rule detectStall_short)
  with r st show "\<exists>r. analyzeCheckInProgress cs e g cal gen = Inr r \<and> \<not> isStalled r"
    by blast
qed

theorem detectStall_needs_three_weights_witness:
  "(length [80.0, 80.0 :: real] < 3
      \<and> \<not> detectStall [80.0, 80.0] detectStall_default_threshold)
   \<and> (length
        [\<lparr> ci_weight = 80.0, createdAt = 0, energyLevel = None, hungerLevel = None,
           stressLevel = None \<rparr>,
         \<lparr> ci_weight = 80.0, createdAt = 604800000, energyLevel = None, hungerLevel = None,
           stressLevel = None \<rparr>] = 2
      \<and> (\<exists>r. analyzeCheckInProgress
        [\<lparr> ci_weight = 80.0, createdAt = 0, energyLevel = None, hungerLevel = None,
           stressLevel = None \<rparr>,
         \<lparr> ci_weight = 80.0, createdAt = 604800000, energyLevel = None, hungerLevel = None,
           stressLevel = None \<rparr>]
        0 Maintenance 2000 Male = Inr r \<and> \<not> isStalled r))"
proof -
  let ?ws = "[80.0, 80.0 :: real]"
  let ?cs = "[\<lparr> ci_weight = 80.0, createdAt = 0, energyLevel = None, hungerLevel = None,
           stressLevel = None \<rparr>,
         \<lparr> ci_weight = 80.0, createdAt = 604800000, energyLevel = None, hungerLevel = None,
           stressLevel = None \<rparr>]"
  have w: "length ?ws < 3" by simp
  have c: "length ?cs = 2" by simp
  from w c detectStall_needs_three_weights [of ?ws ?cs 0 Maintenance 2000 Male]
  show ?thesis by blast
qed

subsection \<open>Action selector\<close>

text \<open>
  Claim C5. For every input to \<open>selectCalorieAdjustment\<close> whose confidence is at least
  the minimum confidence for action of the rule pack and whose risk level is critical, the
  calorie adjustment returned is +200, whatever the current mode, the trend and the goal;
  the new calories are the current calories plus 200, passed through the guardrails.
\<close>

theorem selectCalorieAdjustment_critical_override:
  assumes "minimumConfidenceForAction rulePack \<le> confidence params"
    and "sp_riskLevel params = RiskCritical"
  shows "adjustment (selectCalorieAdjustment rulePack params) = 200
       \<and> newCalories (selectCalorieAdjustment rulePack params)
           = applyGuardrails rulePack (currentCalories (userContext params) + 200)
               (userContext params)"
  using assms by (simp add: selectCalorieAdjustment_def Let_def)


theorem selectCalorieAdjustment_critical_override_witness:
  "minimumConfidenceForAction
      \<lparr> minimumConfidenceForAction = 0.6, calorieFloor_male = 1500, calorieFloor_female = 1200,
        maxDeficitPercent = 25, maxSurplusPercent = 15 \<rparr>
     \<le> confidence
        \<lparr> sp_trend = TrendStable, sp_riskLevel = RiskCritical, confidence = 0.8,
          currentMode = ''CUT_ACTIVE'',
          userContext = \<lparr> currentCalories = 2000, uc_tdee = 2500, uc_weight = 80,
                          uc_sex = ''male'', uc_goal = ''weight_loss'' \<rparr> \<rparr>
   \<and> adjustment (selectCalorieAdjustment
        \<lparr> minimumConfidenceForAction = 0.6, calorieFloor_male = 1500, calorieFloor_female = 1200,
          maxDeficitPercent = 25, maxSurplusPercent = 15 \<rparr>
        \<lparr> sp_trend = TrendStable, sp_riskLevel = RiskCritical, confidence = 0.8,
          currentMode = ''CUT_ACTIVE'',
          userContext = \<lparr> currentCalories = 2000, uc_tdee = 2500, uc_weight = 80,
                          uc_sex = ''male'', uc_goal = ''weight_loss'' \<rparr> \<rparr>) = 200"
  using selectCalorieAdjustment_critical_override
    [of "\<lparr> minimumConfidenceForAction = 0.6, calorieFloor_male = 1500, calorieFloor_female = 1200,
          maxDeficitPercent = 25, maxSurplusPercent = 15 \<rparr>"
        "\<lparr> sp_trend = TrendStable, sp_riskLevel = RiskCritical, confidence = 0.8,
          currentMode = ''CUT_ACTIVE'',
          userContext = \<lparr> currentCalories = 2000, uc_tdee = 2500, uc_weight = 80,
                          uc_sex = ''male'', uc_goal = ''weight_loss'' \<rparr> \<rparr>"]
  by simp

subsection \<open>Plan builder\<close>

text \<open>
  Claim C9. For every weight, height, age, sex and activity level,
  \<open>PlanBuilderService.calculateTDEE\<close> returns the Mifflin-St Jeor BMR times 1.55,
  rounded; the result does not depend on the activity level. The calculator's
  \<open>calculateTDEE\<close> multiplies its (rounded) BMR by the entry of the level in the table
  1.2, 1.375, 1.55, 1.725, 1.9; for a sedentary man of 80 kg, 180 cm and 30 years the two
  results are 2759 and 2136.
\<close>

theorem PlanBuilderService_calculateTDEE_ignores_activity:
  "PlanBuilderService_calculateTDEE
      \<lparr> pb_weight = w, pb_height = h, pb_age = a, pb_sex = s, pb_activityLevel = l \<rparr>
     = js_round ((10 * w + 6.25 * h - 5 * a + (if s = ''male'' then 5 else - 161)) * 1.55)
   \<and> PlanBuilderService_calculateTDEE
      \<lparr> pb_weight = w, pb_height = h, pb_age = a, pb_sex = s, pb_activityLevel = l \<rparr>
     = PlanBuilderService_calculateTDEE
      \<lparr> pb_weight = w, pb_height = h, pb_age = a, pb_sex = s, pb_activityLevel = l' \<rparr>
   \<and> tr_tdee (calculateTDEE
        \<lparr> ti_weight = w, ti_height = h, ti_age = a, ti_gender = gen, ti_activityLevel = lev \<rparr>)
     = js_round (calculateBMR
        \<lparr> ti_weight = w, ti_height = h, ti_age = a, ti_gender = gen, ti_activityLevel = lev \<rparr>
        * ACTIVITY_MULTIPLIERS lev)
   \<and> map ACTIVITY_MULTIPLIERS [Sedentary, Light, Moderate, Active, VeryActive]
     = [1.2, 1.375, 1.55, 1.725, 1.9]
   \<and> PlanBuilderService_calculateTDEE
      \<lparr> pb_weight = 80, pb_height = 180, pb_age = 30, pb_sex = ''male'',
        pb_activityLevel = ''sedentary'' \<rparr> = 2759
   \<and> tr_tdee (calculateTDEE
        \<lparr> ti_weight = 80, ti_height = 180, ti_age = 30, ti_gender = Male,
          ti_activityLevel = Sedentary \<rparr>) = 2136"
  by (simp add: PlanBuilderService_calculateTDEE_def calculateTDEE_def calculateBMR_def Let_def
      js_round_def)

end
